theory Spec2Isabelle
  imports Main
begin

section \<open>JavaScript values\<close>

text \<open>
  The strategy is written against untyped values (\<open>req: any\<close>, \<open>err: any\<close>, \<open>user: any\<close>),
  so the model carries a datatype of JavaScript values. Numbers are the integers (no
  fractions, no NaN). An object is its list of own data properties (no getters), the first
  binding of a key being the property's value. Error objects carry their \<open>name\<close> and \<open>message\<close>;
  \<open>InternalOAuthError\<close> is the error class of passport-oauth2 that \<open>userProfile\<close>
  constructs, with its message and the wrapped cause. \<open>String_sub\<close> is the built-in
  function \<open>String.prototype.sub\<close>, the one function that a property read of this program
  can yield.
\<close>

datatype jsval =
    Undefined
  | Null
  | JBool bool
  | JNum int
  | JStr string
  | JObj "(string \<times> jsval) list"
  | JArr "jsval list"
  | JError string string
  | InternalOAuthError string jsval
  | String_sub

text \<open>Truthiness, as \<open>if (v)\<close>, \<open>!v\<close>, \<open>a || b\<close> and \<open>a && b\<close> test it.\<close>

fun truthy :: "jsval \<Rightarrow> bool" where
  "truthy Undefined = False"
| "truthy Null = False"
| "truthy (JBool b) = b"
| "truthy (JNum n) = (n \<noteq> 0)"
| "truthy (JStr s) = (s \<noteq> [])"
| "truthy (JObj kvs) = True"
| "truthy (JArr xs) = True"
| "truthy (JError n m) = True"
| "truthy (InternalOAuthError m c) = True"
| "truthy String_sub = True"

text \<open>
  An expression either has a value (\<open>Inr\<close>) or throws (\<open>Inl\<close>, the thrown value).
  Reading a property of \<open>undefined\<close> or \<open>null\<close> throws a TypeError (the message is V8's).
  \<open>getprop\<close> is the read of one of the keys this program reads: \<open>error\<close>,
  \<open>access_token\<close>, \<open>refresh_token\<close>, \<open>id\<close>, \<open>sub\<close>, \<open>name\<close>, \<open>family_name\<close>,
  \<open>given_name\<close> and \<open>email\<close>. An object gives its own property, and \<open>undefined\<close> when it
  has none (no prototype of the runtime defines one of these keys for an object, an array,
  a number or a boolean). A string has the method \<open>sub\<close> of \<open>String.prototype\<close>; an error
  object and the function have their \<open>name\<close>.
\<close>

type_synonym 'a thrown_or = "jsval + 'a"

fun nullish_name :: "jsval \<Rightarrow> string" where
  "nullish_name Null = ''null''"
| "nullish_name v = ''undefined''"

definition cannot_read :: "jsval \<Rightarrow> string \<Rightarrow> jsval" where
  "cannot_read v k =
     JError ''TypeError''
       (''Cannot read properties of '' @ nullish_name v @ '' (reading '' @ [CHR 39] @ k @ [CHR 39] @ '')'')"

fun getprop :: "jsval \<Rightarrow> string \<Rightarrow> jsval thrown_or" where
  "getprop Undefined k = Inl (cannot_read Undefined k)"
| "getprop Null k = Inl (cannot_read Null k)"
| "getprop (JObj kvs) k = Inr (case map_of kvs k of Some v \<Rightarrow> v | None \<Rightarrow> Undefined)"
| "getprop (JStr s) k = Inr (if k = ''sub'' then String_sub else Undefined)"
| "getprop (JError n m) k =
     Inr (if k = ''name'' then JStr n else if k = ''message'' then JStr m else Undefined)"
| "getprop (InternalOAuthError m c) k =
     Inr (if k = ''name'' then JStr ''InternalOAuthError''
          else if k = ''message'' then JStr m
          else if k = ''oauthError'' then c else Undefined)"
| "getprop String_sub k = Inr (if k = ''name'' then JStr ''sub'' else Undefined)"
| "getprop v k = Inr Undefined"

text \<open>\<open>a || b\<close> and \<open>a && b\<close>: the right operand is evaluated only when the left one
  does not decide, so what it throws is thrown only then.\<close>

definition or_js :: "jsval thrown_or \<Rightarrow> jsval thrown_or \<Rightarrow> jsval thrown_or" where
  "or_js a b = (case a of Inl e \<Rightarrow> Inl e | Inr v \<Rightarrow> if truthy v then Inr v else b)"

definition and_js :: "jsval thrown_or \<Rightarrow> jsval thrown_or \<Rightarrow> jsval thrown_or" where
  "and_js a b = (case a of Inl e \<Rightarrow> Inl e | Inr v \<Rightarrow> if truthy v then b else Inr v)"

definition bind_js :: "'a thrown_or \<Rightarrow> ('a \<Rightarrow> 'b thrown_or) \<Rightarrow> 'b thrown_or" where
  "bind_js a f = (case a of Inl e \<Rightarrow> Inl e | Inr v \<Rightarrow> f v)"

text \<open>
  Two operations of the runtime are parameters of the model. \<open>JSON_parse\<close> is
  \<open>JSON.parse\<close>: it returns the parsed value or throws. \<open>string_of\<close> is the conversion to
  a string that \<open>+\<close> applies to an operand that is not a string: it returns the text, or
  throws (as it does for an object whose \<open>toString\<close> is not callable).
\<close>

record runtime =
  JSON_parse :: "jsval \<Rightarrow> jsval thrown_or"
  string_of :: "jsval \<Rightarrow> string thrown_or"

section \<open>Requests, outcomes and the strategy instance\<close>

text \<open>The request object: the three containers the strategy reads, each any value
  (\<open>Undefined\<close> when the request does not have it).\<close>

record req =
  query :: jsval
  body :: jsval
  headers :: jsval

text \<open>The three outcome sinks of the host framework: \<open>fail(info)\<close>, \<open>error(err)\<close> and
  \<open>success(user, info)\<close>. An argument that is not passed is \<open>undefined\<close>.\<close>

datatype outcome =
    Fail jsval
  | Error jsval
  | Success jsval jsval

text \<open>The two shapes in which the application's verify callback is called.\<close>

datatype verify_call =
    VerifyWithReq req jsval jsval jsval
  | VerifyWithoutReq jsval jsval jsval

text \<open>
  What one authentication attempt does, in order: the outcomes it signals, and the calls
  it makes to the fetcher, the HTTP client, the JSON parser and the verify callback.
\<close>

datatype event =
    Signal outcome
  | CallUserProfile jsval
  | HttpGet string
  | JsonParse jsval
  | CallVerify verify_call

text \<open>
  A run of a piece of the callback chain: the events it produced, and the exception that
  ended it when one was thrown and not caught. The asynchronous steps are laid end to end:
  a continuation runs where the collaborator invokes it.
\<close>

type_synonym run = "event list \<times> jsval option"

definition emit :: "event list \<Rightarrow> run" where
  "emit evs = (evs, None)"

definition throw :: "jsval \<Rightarrow> run" where
  "throw e = ([], Some e)"

definition seq :: "run \<Rightarrow> run \<Rightarrow> run" where
  "seq a b = (case snd a of Some e \<Rightarrow> a | None \<Rightarrow> (fst a @ fst b, snd b))"

definition try_catch :: "run \<Rightarrow> (jsval \<Rightarrow> run) \<Rightarrow> run" where
  "try_catch a handler = (case snd a of Some e \<Rightarrow> seq (fst a, None) (handler e) | None \<Rightarrow> a)"

text \<open>
  A collaborator that is handed a continuation (the HTTP client, the asynchronous skip
  predicate, the verify callback) is described by what it does with it: the arguments of
  each invocation of the continuation, in order, and the exception it throws afterwards,
  if any. An exception that escapes one invocation ends the run.
\<close>

record 'a behaviour =
  calls :: "'a list"
  thrown :: "jsval option"

fun each :: "('a \<Rightarrow> run) \<Rightarrow> 'a list \<Rightarrow> run" where
  "each k [] = emit []"
| "each k (x # xs) = seq (k x) (each k xs)"

definition invoke :: "'a behaviour \<Rightarrow> ('a \<Rightarrow> run) \<Rightarrow> run" where
  "invoke b k = seq (each k (calls b)) ([], thrown b)"

text \<open>
  The value of \<open>_skipUserProfile\<close>: a value that is not a function, or a function. A
  function has its number of declared parameters (\<open>length\<close>), what it returns or throws
  when called with no argument, and what it does when called with a token and a
  continuation \<open>(err, skip)\<close>. (The built-in \<open>String_sub\<close> as the policy is a function of no
  declared parameter that returns a non-empty string; as a \<open>SkipValue\<close> it resolves to
  skip likewise.)
\<close>

datatype skip_policy =
    SkipValue jsval
  | SkipFunction nat "jsval thrown_or" "jsval \<Rightarrow> (jsval \<times> jsval) behaviour"

text \<open>
  The strategy instance \<open>this\<close>: the fields the three methods read. \<open>oauth2_get\<close> is
  \<open>_oauth2.get(url, null, callback)\<close>, its continuation taking \<open>(err, body)\<close> (the third
  argument \<open>res\<close> is never read); \<open>verify\<close> is \<open>_verify\<close>, its continuation taking
  \<open>(err, user, info)\<close>.
\<close>

record strategy =
  skipUserProfile :: skip_policy
  passReqToCallback :: jsval
  oauth2_get :: "string \<Rightarrow> (jsval \<times> jsval) behaviour"
  verify :: "verify_call \<Rightarrow> (jsval \<times> jsval \<times> jsval) behaviour"

section \<open>The profile fetcher\<close>

text \<open>
  The object literal of \<open>userProfile\<close>, its property reads in source order. The response
  body is written \<open>body'\<close>, the request's container being \<open>body\<close>.
\<close>

definition build_profile :: "string \<Rightarrow> jsval \<Rightarrow> jsval \<Rightarrow> jsval thrown_or" where
  "build_profile profileUrl body' json =
     bind_js (or_js (getprop json ''id'') (getprop json ''sub'')) (\<lambda>id.
     bind_js (getprop json ''name'') (\<lambda>displayName.
     bind_js (getprop json ''family_name'') (\<lambda>familyName.
     bind_js (getprop json ''given_name'') (\<lambda>givenName.
     bind_js (getprop json ''email'') (\<lambda>email.
       Inr (JObj [
         (''profileUrl'', JStr profileUrl),
         (''provider'', JStr ''google''),
         (''id'', id),
         (''displayName'', displayName),
         (''name'', JObj [(''familyName'', familyName), (''givenName'', givenName)]),
         (''emails'', JArr [JObj [(''value'', email)]]),
         (''_raw'', body'),
         (''_json'', json)]))))))"

text \<open>\<open>s + v\<close> for a string \<open>s\<close>: a string \<open>v\<close> is appended as it is, any other value
  is converted first.\<close>

definition concat_js :: "runtime \<Rightarrow> string \<Rightarrow> jsval \<Rightarrow> string thrown_or" where
  "concat_js rt s v =
     (case v of
        JStr t \<Rightarrow> Inr (s @ t)
      | _ \<Rightarrow> bind_js (string_of rt v) (\<lambda>t. Inr (s @ t)))"

text \<open>The first statement of \<open>userProfile\<close>: the URL, or what the concatenation throws.\<close>

definition profileUrl_of :: "runtime \<Rightarrow> jsval \<Rightarrow> string thrown_or" where
  "profileUrl_of rt accessToken =
     concat_js rt ''https://www.googleapis.com/oauth2/v3/tokeninfo?id_token='' accessToken"

text \<open>The concatenation stands before the GET and outside the \<open>try\<close>: what it throws
  leaves \<open>userProfile\<close>.\<close>

definition userProfile ::
  "runtime \<Rightarrow> strategy \<Rightarrow> jsval \<Rightarrow> (jsval \<Rightarrow> jsval \<Rightarrow> run) \<Rightarrow> run" where
  "userProfile rt self accessToken done =
     seq (emit [CallUserProfile accessToken])
       (case profileUrl_of rt accessToken of
          Inl e \<Rightarrow> throw e
        | Inr profileUrl \<Rightarrow>
           seq (emit [HttpGet profileUrl])
             (invoke (oauth2_get self profileUrl) (\<lambda>(err, body').
                if truthy err then
                  done (InternalOAuthError ''failed to fetch user profile'' err) Undefined
                else
                  try_catch
                    (seq (emit [JsonParse body'])
                      (case JSON_parse rt body' of
                         Inl e \<Rightarrow> throw e
                       | Inr json \<Rightarrow>
                          (case build_profile profileUrl body' json of
                             Inl e \<Rightarrow> throw e
                           | Inr profile \<Rightarrow> done Null profile)))
                    (\<lambda>e. done e Undefined))))"

section \<open>The profile loader\<close>

definition loadUserProfile ::
  "runtime \<Rightarrow> strategy \<Rightarrow> jsval \<Rightarrow> (jsval \<Rightarrow> jsval \<Rightarrow> run) \<Rightarrow> run" where
  "loadUserProfile rt self accessToken done =
     (let loadIt = userProfile rt self accessToken done;
          skipIt = done Null Undefined
      in case skipUserProfile self of
           SkipFunction len call0 call2 \<Rightarrow>
             if len > 1 then
               invoke (call2 accessToken) (\<lambda>(err, skip).
                 if truthy err then done err Undefined
                 else if \<not> truthy skip then loadIt
                 else skipIt)
             else
               (case call0 of
                  Inl e \<Rightarrow> throw e
                | Inr skip \<Rightarrow> if \<not> truthy skip then loadIt else skipIt)
         | SkipValue skip \<Rightarrow> if \<not> truthy skip then loadIt else skipIt)"

section \<open>The request authenticator\<close>

text \<open>
  \<open>authenticate\<close> in four pieces, named here for the statements: \<open>verified\<close> is the
  continuation of that name; \<open>call_verify\<close> is the call \<open>self._verify(..., verified)\<close>;
  \<open>loaded\<close> is the function \<open>(err, profile)\<close> that \<open>authenticate\<close> passes to
  \<open>_loadUserProfile\<close>; \<open>extract_token\<close> is the conditional expression that computes
  \<open>accessToken\<close> and, with the other field name, \<open>refreshToken\<close>. The sinks \<open>fail\<close>, \<open>error\<close>
  and \<open>success\<close> of the framework record the outcome and return.
\<close>

definition verified :: "jsval \<Rightarrow> jsval \<Rightarrow> jsval \<Rightarrow> run" where
  "verified err user info =
     (if truthy err then emit [Signal (Error err)]
      else if \<not> truthy user then emit [Signal (Fail info)]
      else emit [Signal (Success user info)])"

definition call_verify :: "strategy \<Rightarrow> verify_call \<Rightarrow> run" where
  "call_verify self c =
     seq (emit [CallVerify c]) (invoke (verify self c) (\<lambda>(err, user, info). verified err user info))"

definition loaded ::
  "strategy \<Rightarrow> req \<Rightarrow> jsval \<Rightarrow> jsval \<Rightarrow> jsval \<Rightarrow> jsval \<Rightarrow> run" where
  "loaded self rq accessToken refreshToken err profile =
     (if truthy err then emit [Signal (Fail err)]
      else if truthy (passReqToCallback self) then
        call_verify self (VerifyWithReq rq accessToken refreshToken profile)
      else
        call_verify self (VerifyWithoutReq accessToken refreshToken profile))"

definition extract_token :: "req \<Rightarrow> string \<Rightarrow> jsval thrown_or" where
  "extract_token rq field =
     (if truthy (body rq) then
        or_js (or_js (getprop (body rq) field) (getprop (query rq) field))
              (getprop (headers rq) field)
      else
        or_js (getprop (headers rq) field) (getprop (query rq) field))"

text \<open>The condition of the first \<open>if\<close>: \<open>req.query && req.query.error\<close>.\<close>

definition error_indicator :: "req \<Rightarrow> jsval thrown_or" where
  "error_indicator rq = and_js (Inr (query rq)) (getprop (query rq) ''error'')"

definition authenticate :: "runtime \<Rightarrow> strategy \<Rightarrow> req \<Rightarrow> run" where
  "authenticate rt self rq =
     (case error_indicator rq of
        Inl e \<Rightarrow> throw e
      | Inr c \<Rightarrow>
         if truthy c then emit [Signal (Fail Undefined)]
         else
           (case extract_token rq ''access_token'' of
              Inl e \<Rightarrow> throw e
            | Inr accessToken \<Rightarrow>
               (case extract_token rq ''refresh_token'' of
                  Inl e \<Rightarrow> throw e
                | Inr refreshToken \<Rightarrow>
                   loadUserProfile rt self accessToken
                     (loaded self rq accessToken refreshToken))))"

text \<open>The outcomes a run signalled, in order.\<close>

fun outcomes :: "event list \<Rightarrow> outcome list" where
  "outcomes [] = []"
| "outcomes (Signal out # evs) = out # outcomes evs"
| "outcomes (ev # evs) = outcomes evs"

section \<open>Reading the claims\<close>

text \<open>The value of a field of a container, \<open>undefined\<close> where the read would throw.\<close>

definition field_of :: "jsval \<Rightarrow> string \<Rightarrow> jsval" where
  "field_of c k = (case getprop c k of Inr v \<Rightarrow> v | Inl e \<Rightarrow> Undefined)"



text \<open>The profile id as the specification words it: the \<open>id\<close> claim of the response, and
  the \<open>sub\<close> claim when the response has no \<open>id\<close>.\<close>

definition stated_profile_id :: "jsval \<Rightarrow> jsval" where
  "stated_profile_id json =
     (if field_of json ''id'' \<noteq> Undefined then field_of json ''id'' else field_of json ''sub'')"










text \<open>
  What a method does by itself: its events when the completion it is given does nothing.
  A fetch shows as a call of \<open>userProfile\<close> or an HTTP GET, a parse attempt as a call of
  \<open>JSON.parse\<close>.
\<close>

definition own_events :: "((jsval \<Rightarrow> jsval \<Rightarrow> run) \<Rightarrow> run) \<Rightarrow> event list" where
  "own_events m = fst (m (\<lambda>err profile. emit []))"

fun is_fetch :: "event \<Rightarrow> bool" where
  "is_fetch (CallUserProfile t) = True"
| "is_fetch (HttpGet u) = True"
| "is_fetch ev = False"

fun is_parse :: "event \<Rightarrow> bool" where
  "is_parse (JsonParse b) = True"
| "is_parse ev = False"

section \<open>Example collaborators and requests\<close>

definition once :: "'a \<Rightarrow> 'a behaviour" where
  "once x = \<lparr>calls = [x], thrown = None\<rparr>"

definition never :: "'a behaviour" where
  "never = \<lparr>calls = [], thrown = None\<rparr>"

text \<open>
  Stand-ins for the runtime, for the values of the examples only. \<open>string_known\<close> knows
  the text of \<open>undefined\<close>, of \<open>null\<close> and of the booleans; on every other value it throws
  the TypeError that the conversion throws for the object of \<open>object_token_request\<close>.
  \<open>parse_known\<close> knows the listed response texts and throws a SyntaxError on every other
  body.
\<close>

definition string_known :: "jsval \<Rightarrow> string thrown_or" where
  "string_known v =
     (case v of
        JStr s \<Rightarrow> Inr s
      | Undefined \<Rightarrow> Inr ''undefined''
      | Null \<Rightarrow> Inr ''null''
      | JBool b \<Rightarrow> Inr (if b then ''true'' else ''false'')
      | _ \<Rightarrow> Inl (JError ''TypeError'' ''Cannot convert object to primitive value''))"

definition sub_response :: string where
  \<open>sub_response = ''{"sub": "42", "name": "A B", "email": "a@b.com"}''\<close>

definition sub_claims :: jsval where
  "sub_claims = JObj [(''sub'', JStr ''42''), (''name'', JStr ''A B''), (''email'', JStr ''a@b.com'')]"

definition id_response :: string where
  \<open>id_response = ''{"id":"1","name":"N","email":"e@x.com"}''\<close>

definition id_claims :: jsval where
  "id_claims = JObj [(''id'', JStr ''1''), (''name'', JStr ''N''), (''email'', JStr ''e@x.com'')]"

definition zero_id_response :: string where
  \<open>zero_id_response = ''{"id": 0, "sub": "42"}''\<close>

definition zero_id_claims :: jsval where
  "zero_id_claims = JObj [(''id'', JNum 0), (''sub'', JStr ''42'')]"

definition known_texts :: "(string \<times> jsval) list" where
  "known_texts =
     [(sub_response, sub_claims), (id_response, id_claims),
      (zero_id_response, zero_id_claims), (''null'', Null)]"

definition parse_known :: "jsval \<Rightarrow> jsval thrown_or" where
  "parse_known b =
     (case b of
        JStr s \<Rightarrow>
          (case map_of known_texts s of
             Some v \<Rightarrow> Inr v
           | None \<Rightarrow> Inl (JError ''SyntaxError'' ''Unexpected token''))
      | _ \<Rightarrow> Inl (JError ''SyntaxError'' ''Unexpected token''))"

definition known :: runtime where
  "known = \<lparr>JSON_parse = parse_known, string_of = string_known\<rparr>"

text \<open>A strategy whose HTTP client and verify callback behave the same on every call.\<close>

definition strategy_of ::
  "skip_policy \<Rightarrow> (jsval \<times> jsval) behaviour \<Rightarrow> (jsval \<times> jsval \<times> jsval) behaviour \<Rightarrow> strategy" where
  "strategy_of sk g v =
     \<lparr>skipUserProfile = sk, passReqToCallback = Undefined,
      oauth2_get = (\<lambda>url. g), verify = (\<lambda>c. v)\<rparr>"

text \<open>Requests: a token in the body only; both credentials spread over the three
  containers; no body; an empty token in the body; an error indicator in the query; five
  requests that lack a container; and a token that is an object whose \<open>toString\<close> is a
  string.\<close>

definition body_token_request :: req where
  "body_token_request =
     \<lparr>query = JObj [], body = JObj [(''access_token'', JStr ''abc'')], headers = JObj []\<rparr>"



definition empty_body_token_request :: req where
  "empty_body_token_request =
     \<lparr>query = JObj [(''access_token'', JStr ''q'')],
      body = JObj [(''access_token'', JStr '''')],
      headers = JObj []\<rparr>"

definition denied_request :: req where
  "denied_request =
     \<lparr>query = JObj [(''error'', JStr ''access_denied'')],
      body = JObj [(''access_token'', JStr ''abc'')],
      headers = JObj []\<rparr>"



definition no_query_request :: req where
  "no_query_request = \<lparr>query = Undefined, body = JObj [], headers = JObj []\<rparr>"

definition no_headers_request :: req where
  "no_headers_request = \<lparr>query = JObj [], body = JObj [], headers = Undefined\<rparr>"

definition bare_request :: req where
  "bare_request = \<lparr>query = JObj [], body = Undefined, headers = Undefined\<rparr>"


definition connection_refused :: jsval where
  "connection_refused = JError ''Error'' ''connect ECONNREFUSED''"

definition a_user :: jsval where
  "a_user = JObj [(''id'', JNum 1)]"

section \<open>Auxiliary facts\<close>

subsection \<open>Runs\<close>

lemma seq_unit_right: "seq a ([], None) = a"
  by (cases a) (auto simp: seq_def split: option.splits)

lemma seq_none: "seq (evs, None) b = (evs @ fst b, snd b)"
  by (simp add: seq_def)

lemma seq_some: "seq (evs, Some e) b = (evs, Some e)"
  by (simp add: seq_def)

lemma try_catch_none: "try_catch (evs, None) h = (evs, None)"
  by (simp add: try_catch_def)

lemma try_catch_some: "try_catch (evs, Some e) h = (evs @ fst (h e), snd (h e))"
  by (simp add: try_catch_def seq_def)

lemmas run_simps = seq_none seq_some try_catch_none try_catch_some emit_def throw_def

lemma invoke_single: "invoke \<lparr>calls = [x], thrown = None\<rparr> k = k x"
  by (simp add: invoke_def seq_unit_right emit_def)

lemma invoke_none: "invoke \<lparr>calls = [], thrown = None\<rparr> k = emit []"
  by (simp add: invoke_def emit_def seq_def)



subsection \<open>Property reads and the extraction\<close>

lemma getprop_field_of:
  "v \<noteq> Undefined \<Longrightarrow> v \<noteq> Null \<Longrightarrow> getprop v k = Inr (field_of v k)"
  by (cases v) (simp_all add: field_of_def)



lemma truthy_not_nullish: "truthy v \<Longrightarrow> v \<noteq> Undefined \<and> v \<noteq> Null"
  by (cases v) simp_all




subsection \<open>The profile mapping\<close>

lemma build_profile_fields:
  assumes "json \<noteq> Undefined" and "json \<noteq> Null"
  shows "\<exists>profile.
           build_profile url body' json = Inr profile \<and>
           getprop profile ''provider'' = Inr (JStr ''google'') \<and>
           getprop profile ''profileUrl'' = Inr (JStr url) \<and>
           getprop profile ''emails'' =
             Inr (JArr [JObj [(''value'', field_of json ''email'')]]) \<and>
           getprop profile ''id'' =
             Inr (if truthy (field_of json ''id'') then field_of json ''id''
                  else field_of json ''sub'')"
  using assms by (simp add: build_profile_def bind_js_def or_js_def getprop_field_of)

text \<open>A parsed value that is \<open>null\<close> has no properties to read: the mapping throws at its
  first read.\<close>

lemma build_profile_nullish:
  assumes "json = Undefined \<or> json = Null"
  shows "build_profile url body' json = Inl (cannot_read json ''id'')"
  using assms by (auto simp: build_profile_def bind_js_def or_js_def)

lemma userProfile_fetch:
  assumes "profileUrl_of rt tok = Inr url"
    and "oauth2_get self url = \<lparr>calls = [(err, body')], thrown = None\<rparr>"
  shows "userProfile rt self tok done =
           seq (emit [CallUserProfile tok, HttpGet url])
             (if truthy err then
                done (InternalOAuthError ''failed to fetch user profile'' err) Undefined
              else
                try_catch
                  (seq (emit [JsonParse body'])
                    (case JSON_parse rt body' of
                       Inl e \<Rightarrow> throw e
                     | Inr json \<Rightarrow>
                        (case build_profile url body' json of
                           Inl e \<Rightarrow> throw e
                         | Inr profile \<Rightarrow> done Null profile)))
                  (\<lambda>e. done e Undefined))"
  using assms by (simp add: userProfile_def invoke_single run_simps)

lemma userProfile_parsed:
  assumes "profileUrl_of rt tok = Inr url"
    and "oauth2_get self url = \<lparr>calls = [(err, body')], thrown = None\<rparr>"
    and "\<not> truthy err" and "JSON_parse rt body' = Inr json"
    and "build_profile url body' json = Inr profile"
    and "snd (done Null profile) = None"
  shows "userProfile rt self tok done =
           seq (emit [CallUserProfile tok, HttpGet url, JsonParse body']) (done Null profile)"
  using assms(3-6)
  by (cases "done Null profile") (simp add: userProfile_fetch [OF assms(1,2)] run_simps)

lemma userProfile_unreadable:
  assumes "profileUrl_of rt tok = Inr url"
    and "oauth2_get self url = \<lparr>calls = [(err, body')], thrown = None\<rparr>"
    and "\<not> truthy err" and "JSON_parse rt body' = Inr json"
    and "json = Undefined \<or> json = Null"
  shows "userProfile rt self tok done =
           seq (emit [CallUserProfile tok, HttpGet url, JsonParse body'])
               (done (cannot_read json ''id'') Undefined)"
  using assms(3,4)
  by (simp add: userProfile_fetch [OF assms(1,2)] build_profile_nullish [OF assms(5)] run_simps)

subsection \<open>Continuations invoked exactly once\<close>














subsection \<open>Continuations invoked at most once\<close>












subsection \<open>The examples\<close>

lemma known_simps:
  "JSON_parse known = parse_known" "string_of known = string_known"
  by (simp_all add: known_def)

lemma profileUrl_of_string:
  "profileUrl_of rt (JStr s) =
     Inr (''https://www.googleapis.com/oauth2/v3/tokeninfo?id_token='' @ s)"
  by (simp add: profileUrl_of_def concat_js_def)

lemma parse_known_sub: "parse_known (JStr sub_response) = Inr sub_claims"
  by (simp add: parse_known_def known_texts_def)

lemma parse_known_id: "parse_known (JStr id_response) = Inr id_claims"
  by (simp add: parse_known_def known_texts_def sub_response_def id_response_def)

lemma parse_known_zero_id: "parse_known (JStr zero_id_response) = Inr zero_id_claims"
  by (simp add: parse_known_def known_texts_def sub_response_def id_response_def
      zero_id_response_def)

lemma parse_known_null: "parse_known (JStr ''null'') = Inr Null"
  by (simp add: parse_known_def known_texts_def sub_response_def id_response_def
      zero_id_response_def)

lemma parse_known_garbage:
  "parse_known (JStr ''<html>'') = Inl (JError ''SyntaxError'' ''Unexpected token'')"
  by (simp add: parse_known_def known_texts_def sub_response_def id_response_def
      zero_id_response_def)

lemmas eval_defs =
  authenticate_def error_indicator_def and_js_def extract_token_def or_js_def
  loadUserProfile_def userProfile_def Let_def profileUrl_of_string known_simps invoke_single
  invoke_none run_simps loaded_def call_verify_def verified_def build_profile_def bind_js_def
  strategy_of_def once_def never_def

text \<open>
  The whole chain on one request: token \<open>abc\<close> in the body, the provider answering with an
  \<open>id\<close>, the verify callback accepting. The verify callback receives the token, no refresh
  token and the normalized profile; the attempt ends in the success outcome.
\<close>

lemma end_to_end_example:
  "authenticate known
     (strategy_of (SkipValue Undefined) (once (Null, JStr id_response)) (once (Null, a_user, Null)))
     body_token_request
   = ([CallUserProfile (JStr ''abc''),
       HttpGet ''https://www.googleapis.com/oauth2/v3/tokeninfo?id_token=abc'',
       JsonParse (JStr id_response),
       CallVerify (VerifyWithoutReq (JStr ''abc'') Undefined
         (JObj [(''profileUrl'',
                   JStr ''https://www.googleapis.com/oauth2/v3/tokeninfo?id_token=abc''),
                (''provider'', JStr ''google''),
                (''id'', JStr ''1''),
                (''displayName'', JStr ''N''),
                (''name'', JObj [(''familyName'', Undefined), (''givenName'', Undefined)]),
                (''emails'', JArr [JObj [(''value'', JStr ''e@x.com'')]]),
                (''_raw'', JStr id_response),
                (''_json'', id_claims)])),
       Signal (Success a_user Null)], None)"
  by (simp add: eval_defs parse_known_id body_token_request_def a_user_def id_claims_def)

text \<open>
  Why the collaborators are asked to return normally: the \<open>try\<close> of \<open>userProfile\<close> encloses
  the call of the completion, so an exception thrown by the verify callback after it has
  answered is caught there and the completion runs a second time, with the exception as
  its error.
\<close>

lemma throwing_verify_example:
  "outcomes (fst (authenticate known
     \<lparr>skipUserProfile = SkipValue Undefined, passReqToCallback = Undefined,
      oauth2_get = (\<lambda>url. once (Null, JStr id_response)),
      verify = (\<lambda>c. \<lparr>calls = [(Null, a_user, Null)],
                       thrown = Some (JError ''Error'' ''boom'')\<rparr>)\<rparr>
     body_token_request))
   = [Success a_user Null, Fail (JError ''Error'' ''boom'')]"
  by (simp add: eval_defs invoke_def parse_known_id body_token_request_def a_user_def
      id_claims_def)


text \<open>
  Falsy values count as not there: an empty \<open>access_token\<close> in the body gives way to the
  query's. A response that is a string has no \<open>id\<close>, and its \<open>sub\<close> is the method of that
  name.
\<close>

lemma empty_token_is_skipped:
  "extract_token empty_body_token_request ''access_token'' = Inr (JStr ''q'')"
  by (simp add: extract_token_def or_js_def empty_body_token_request_def)

lemma string_response_id:
  "bind_js (build_profile url body' (JStr ''hello'')) (\<lambda>profile. getprop profile ''id'')
     = Inr String_sub"
  by (simp add: build_profile_def bind_js_def or_js_def)

section \<open>The claims\<close>

subsection \<open>C1: a failed profile load\<close>

text \<open>
  Claim C1 says that a profile load that completes with an error makes the authenticator
  signal the error outcome. The completion handed to \<open>_loadUserProfile\<close> calls
  \<open>self.fail(err)\<close>: on the request carrying the token \<open>abc\<close> in its body, with an HTTP
  client that reports a refused connection, the attempt ends in the fail outcome, the
  wrapped transport error being its reason. The continuation \<open>verified\<close> of the same method
  signals the error outcome for an error.
\<close>

theorem load_error_signals_fail:
  "authenticate known
      (strategy_of (SkipValue Undefined) (once (connection_refused, Undefined)) never)
      body_token_request
   = ([CallUserProfile (JStr ''abc''),
       HttpGet ''https://www.googleapis.com/oauth2/v3/tokeninfo?id_token=abc'',
       Signal (Fail (InternalOAuthError ''failed to fetch user profile'' connection_refused))],
      None)"
  by (simp add: eval_defs body_token_request_def connection_refused_def)

subsection \<open>C2: where the credentials are taken from\<close>




subsection \<open>C3: the verify callback's continuation\<close>



subsection \<open>C4: the two error kinds of the profile fetcher\<close>

text \<open>
  Claim C4: when the HTTP client reports an error, the fetcher completes with an
  \<open>InternalOAuthError\<close> that wraps the cause under the message
  \<open>failed to fetch user profile\<close>, and does not call the parser; when the HTTP client
  reports no error and the parser throws, the fetcher completes with the thrown value
  itself. This is for every token for which the URL is built, and the HTTP client is
  taken to invoke its callback once.
\<close>

theorem fetch_error_kinds:
  assumes "profileUrl_of rt tok = Inr url"
    and "oauth2_get self url = \<lparr>calls = [(err, body')], thrown = None\<rparr>"
  shows "(truthy err \<longrightarrow>
            userProfile rt self tok done =
              seq (emit [CallUserProfile tok, HttpGet url])
                  (done (InternalOAuthError ''failed to fetch user profile'' err) Undefined) \<and>
            \<not> list_ex is_parse (own_events (userProfile rt self tok))) \<and>
         (\<not> truthy err \<and> JSON_parse rt body' = Inl e \<longrightarrow>
            userProfile rt self tok done =
              seq (emit [CallUserProfile tok, HttpGet url, JsonParse body'])
                  (done e Undefined))"
  by (simp add: userProfile_fetch [OF assms] run_simps own_events_def)

theorem fetch_error_kinds_witness:
  "userProfile known
      (strategy_of (SkipValue Undefined) (once (connection_refused, Undefined)) never)
      (JStr ''abc'') (\<lambda>err profile. emit [Signal (Fail err)])
     = ([CallUserProfile (JStr ''abc''),
         HttpGet ''https://www.googleapis.com/oauth2/v3/tokeninfo?id_token=abc'',
         Signal (Fail (InternalOAuthError ''failed to fetch user profile'' connection_refused))],
        None) \<and>
   userProfile known
      (strategy_of (SkipValue Undefined) (once (Null, JStr ''<html>'')) never)
      (JStr ''abc'') (\<lambda>err profile. emit [Signal (Fail err)])
     = ([CallUserProfile (JStr ''abc''),
         HttpGet ''https://www.googleapis.com/oauth2/v3/tokeninfo?id_token=abc'',
         JsonParse (JStr ''<html>''),
         Signal (Fail (JError ''SyntaxError'' ''Unexpected token''))],
        None)"
  using fetch_error_kinds [where rt = known and tok = "JStr ''abc''"
          and url = "''https://www.googleapis.com/oauth2/v3/tokeninfo?id_token=abc''"
          and self = "strategy_of (SkipValue Undefined) (once (connection_refused, Undefined)) never"
          and err = connection_refused and body' = Undefined
          and ?done = "\<lambda>err profile. emit [Signal (Fail err)]"]
        fetch_error_kinds [where rt = known and tok = "JStr ''abc''"
          and url = "''https://www.googleapis.com/oauth2/v3/tokeninfo?id_token=abc''"
          and self = "strategy_of (SkipValue Undefined) (once (Null, JStr ''<html>'')) never"
          and err = Null and body' = "JStr ''<html>''"
          and e = "JError ''SyntaxError'' ''Unexpected token''"
          and ?done = "\<lambda>err profile. emit [Signal (Fail err)]"]
  by (simp add: profileUrl_of_string known_simps strategy_of_def once_def connection_refused_def
      parse_known_garbage run_simps)

subsection \<open>C5: the normalized profile\<close>

text \<open>
  Claim C5, as the code has it, for a response that the parser accepts. When the parsed
  value is \<open>null\<close> there is no profile: the first property read throws, and the fetcher
  completes with that TypeError. For every other parsed value the fetcher completes with
  \<open>(null, profile)\<close>, where \<open>provider\<close> is \<open>google\<close>, \<open>profileUrl\<close> is the URL of the GET,
  \<open>emails\<close> is the one-element array holding \<open>{ value: email claim }\<close>, and \<open>id\<close> is the
  \<open>id\<close> claim when that is truthy and the \<open>sub\<close> property otherwise. The equation for
  \<open>userProfile\<close> is for a completion that returns normally.
\<close>

theorem normalized_profile:
  assumes "profileUrl_of rt tok = Inr url"
    and "oauth2_get self url = \<lparr>calls = [(err, body')], thrown = None\<rparr>"
    and "\<not> truthy err" and "JSON_parse rt body' = Inr json"
  shows "(json = Undefined \<or> json = Null \<longrightarrow>
            userProfile rt self tok done =
              seq (emit [CallUserProfile tok, HttpGet url, JsonParse body'])
                  (done (cannot_read json ''id'') Undefined)) \<and>
         (json \<noteq> Undefined \<and> json \<noteq> Null \<longrightarrow>
            (\<exists>profile.
               build_profile url body' json = Inr profile \<and>
               (snd (done Null profile) = None \<longrightarrow>
                  userProfile rt self tok done =
                    seq (emit [CallUserProfile tok, HttpGet url, JsonParse body'])
                        (done Null profile)) \<and>
               getprop profile ''provider'' = Inr (JStr ''google'') \<and>
               getprop profile ''profileUrl'' = Inr (JStr url) \<and>
               getprop profile ''emails'' =
                 Inr (JArr [JObj [(''value'', field_of json ''email'')]]) \<and>
               getprop profile ''id'' =
                 Inr (if truthy (field_of json ''id'') then field_of json ''id''
                      else field_of json ''sub'')))"
proof (intro conjI impI)
  assume "json = Undefined \<or> json = Null"
  with assms show "userProfile rt self tok done =
      seq (emit [CallUserProfile tok, HttpGet url, JsonParse body'])
          (done (cannot_read json ''id'') Undefined)"
    by (rule userProfile_unreadable)
next
  assume j: "json \<noteq> Undefined \<and> json \<noteq> Null"
  then have "json \<noteq> Undefined" and "json \<noteq> Null"
    by simp_all
  from build_profile_fields [OF this, of url body']
  obtain profile where p: "build_profile url body' json = Inr profile"
    and f: "getprop profile ''provider'' = Inr (JStr ''google'')"
      "getprop profile ''profileUrl'' = Inr (JStr url)"
      "getprop profile ''emails'' = Inr (JArr [JObj [(''value'', field_of json ''email'')]])"
      "getprop profile ''id'' =
         Inr (if truthy (field_of json ''id'') then field_of json ''id''
              else field_of json ''sub'')"
    by blast
  have u: "userProfile rt self tok done =
          seq (emit [CallUserProfile tok, HttpGet url, JsonParse body']) (done Null profile)"
    if "snd (done Null profile) = None"
    using assms(1) assms(2) assms(3) assms(4) p that by (rule userProfile_parsed)
  show "\<exists>profile.
     build_profile url body' json = Inr profile \<and>
     (snd (done Null profile) = None \<longrightarrow>
        userProfile rt self tok done =
          seq (emit [CallUserProfile tok, HttpGet url, JsonParse body']) (done Null profile)) \<and>
     getprop profile ''provider'' = Inr (JStr ''google'') \<and>
     getprop profile ''profileUrl'' = Inr (JStr url) \<and>
     getprop profile ''emails'' = Inr (JArr [JObj [(''value'', field_of json ''email'')]]) \<and>
     getprop profile ''id'' =
       Inr (if truthy (field_of json ''id'') then field_of json ''id''
            else field_of json ''sub'')"
    by (rule exI [where x = profile]) (use p f u in simp)
qed

theorem normalized_profile_witness:
  "(\<exists>profile.
     build_profile ''https://www.googleapis.com/oauth2/v3/tokeninfo?id_token=abc''
       (JStr sub_response) sub_claims = Inr profile \<and>
     userProfile known
        (strategy_of (SkipValue Undefined) (once (Null, JStr sub_response)) never)
        (JStr ''abc'') (\<lambda>err profile. emit [])
       = ([CallUserProfile (JStr ''abc''),
           HttpGet ''https://www.googleapis.com/oauth2/v3/tokeninfo?id_token=abc'',
           JsonParse (JStr sub_response)], None) \<and>
     getprop profile ''provider'' = Inr (JStr ''google'') \<and>
     getprop profile ''profileUrl'' =
       Inr (JStr ''https://www.googleapis.com/oauth2/v3/tokeninfo?id_token=abc'') \<and>
     getprop profile ''emails'' = Inr (JArr [JObj [(''value'', JStr ''a@b.com'')]]) \<and>
     getprop profile ''id'' = Inr (JStr ''42'')) \<and>
   userProfile known
      (strategy_of (SkipValue Undefined) (once (Null, JStr ''null'')) never)
      (JStr ''abc'') (\<lambda>err profile. emit [Signal (Fail err)])
     = ([CallUserProfile (JStr ''abc''),
         HttpGet ''https://www.googleapis.com/oauth2/v3/tokeninfo?id_token=abc'',
         JsonParse (JStr ''null''),
         Signal (Fail (cannot_read Null ''id''))], None)"
  using normalized_profile [where rt = known and tok = "JStr ''abc''"
          and url = "''https://www.googleapis.com/oauth2/v3/tokeninfo?id_token=abc''"
          and self = "strategy_of (SkipValue Undefined) (once (Null, JStr sub_response)) never"
          and err = Null and body' = "JStr sub_response" and json = sub_claims
          and ?done = "\<lambda>err profile. emit []"]
        normalized_profile [where rt = known and tok = "JStr ''abc''"
          and url = "''https://www.googleapis.com/oauth2/v3/tokeninfo?id_token=abc''"
          and self = "strategy_of (SkipValue Undefined) (once (Null, JStr ''null'')) never"
          and err = Null and body' = "JStr ''null''" and json = Null
          and ?done = "\<lambda>err profile. emit [Signal (Fail err)]"]
  by (simp add: profileUrl_of_string known_simps strategy_of_def once_def parse_known_sub
      parse_known_null run_simps)
     (simp add: sub_claims_def field_of_def)

text \<open>
  Claim C5 as stated is about every successfully parsed response, and gives the \<open>sub\<close>
  claim only when \<open>id\<close> is absent. The response \<open>{"id": 0, "sub": "42"}\<close> parses and has an
  \<open>id\<close> claim, the number 0, which the claim gives as the profile's \<open>id\<close>; the profile's \<open>id\<close>
  is \<open>42\<close>, the \<open>sub\<close> claim.
\<close>

theorem profile_id_counterexample:
  "JSON_parse known (JStr zero_id_response) = Inr zero_id_claims \<and>
   stated_profile_id zero_id_claims = JNum 0 \<and>
   bind_js (build_profile ''https://www.googleapis.com/oauth2/v3/tokeninfo?id_token=abc''
              (JStr zero_id_response) zero_id_claims)
           (\<lambda>profile. getprop profile ''id'') = Inr (JStr ''42'')"
  by (simp add: known_simps parse_known_zero_id stated_profile_id_def field_of_def
      zero_id_claims_def build_profile_def bind_js_def or_js_def)

subsection \<open>C6: the error indicator\<close>

text \<open>
  Claim C6: when the query container is truthy and its \<open>error\<close> field is truthy, the whole
  attempt is the fail outcome with no reason: whatever the strategy's collaborators are,
  the run holds no call of the fetcher, of the HTTP client or of the verify callback.
\<close>

theorem error_indicator_fails:
  assumes "truthy (query rq)" and "getprop (query rq) ''error'' = Inr e" and "truthy e"
  shows "authenticate rt self rq = emit [Signal (Fail Undefined)]"
  using assms by (simp add: authenticate_def error_indicator_def and_js_def)

theorem error_indicator_fails_witness:
  "authenticate known
     (strategy_of (SkipValue Undefined) (once (Null, JStr id_response)) (once (Null, a_user, Null)))
     denied_request = ([Signal (Fail Undefined)], None)"
  using error_indicator_fails [where rq = denied_request and e = "JStr ''access_denied''"
          and rt = known
          and self = "strategy_of (SkipValue Undefined) (once (Null, JStr id_response))
             (once (Null, a_user, Null))"]
  by (simp add: denied_request_def emit_def)

subsection \<open>C7: the skip policy resolving to skip\<close>

text \<open>
  Claim C7: when \<open>_skipUserProfile\<close> is a truthy value, or a function of at most one
  parameter that returns a truthy value, or a function of more than one parameter that
  reports \<open>(err, skip)\<close> with \<open>err\<close> falsy and \<open>skip\<close> truthy, the loader completes with
  \<open>(null, undefined)\<close> and does nothing else: the fetcher is not called.
\<close>

theorem skip_completes_without_fetch:
  assumes "(skipUserProfile self = SkipValue v \<and> truthy v) \<or>
           (skipUserProfile self = SkipFunction len (Inr v) call2 \<and> len \<le> 1 \<and> truthy v) \<or>
           (skipUserProfile self = SkipFunction len call0 call2 \<and> 1 < len \<and>
            call2 tok = \<lparr>calls = [(err, skip)], thrown = None\<rparr> \<and>
            \<not> truthy err \<and> truthy skip)"
  shows "loadUserProfile rt self tok done = done Null Undefined \<and>
         \<not> list_ex is_fetch (own_events (loadUserProfile rt self tok))"
proof -
  have "loadUserProfile rt self tok d = d Null Undefined" for d
    using assms by (auto simp: loadUserProfile_def Let_def invoke_single)
  then show ?thesis
    by (simp add: own_events_def emit_def)
qed

theorem skip_completes_without_fetch_witness:
  "loadUserProfile known
     (strategy_of (SkipValue (JBool True)) (once (Null, JStr id_response)) never)
     (JStr ''abc'') (\<lambda>err profile. emit [Signal (Success err profile)])
     = ([Signal (Success Null Undefined)], None) \<and>
   loadUserProfile known
     (strategy_of (SkipFunction 0 (Inr (JNum 1)) (\<lambda>t. never)) (once (Null, JStr id_response)) never)
     (JStr ''abc'') (\<lambda>err profile. emit [Signal (Success err profile)])
     = ([Signal (Success Null Undefined)], None) \<and>
   loadUserProfile known
     (strategy_of (SkipFunction 2 (Inr Undefined) (\<lambda>t. once (Null, JBool True)))
        (once (Null, JStr id_response)) never)
     (JStr ''abc'') (\<lambda>err profile. emit [Signal (Success err profile)])
     = ([Signal (Success Null Undefined)], None)"
  using skip_completes_without_fetch [where
          self = "strategy_of (SkipValue (JBool True)) (once (Null, JStr id_response)) never"
          and v = "JBool True" and len = 0 and ?call2.0 = "\<lambda>t. never"
          and ?call0.0 = "Inr Undefined" and tok = "JStr ''abc''" and err = Null and skip = Null
          and rt = known and ?done = "\<lambda>err profile. emit [Signal (Success err profile)]"]
        skip_completes_without_fetch [where
          self = "strategy_of (SkipFunction 0 (Inr (JNum 1)) (\<lambda>t. never))
             (once (Null, JStr id_response)) never"
          and v = "JNum 1" and len = 0 and ?call2.0 = "\<lambda>t. never"
          and ?call0.0 = "Inr Undefined" and tok = "JStr ''abc''" and err = Null and skip = Null
          and rt = known and ?done = "\<lambda>err profile. emit [Signal (Success err profile)]"]
        skip_completes_without_fetch [where
          self = "strategy_of (SkipFunction 2 (Inr Undefined) (\<lambda>t. once (Null, JBool True)))
             (once (Null, JStr id_response)) never"
          and v = "JBool True" and len = 2 and ?call2.0 = "\<lambda>t. once (Null, JBool True)"
          and ?call0.0 = "Inr Undefined" and tok = "JStr ''abc''" and err = Null
          and skip = "JBool True"
          and rt = known and ?done = "\<lambda>err profile. emit [Signal (Success err profile)]"]
  by (simp add: strategy_of_def once_def emit_def)

subsection \<open>C8: the asynchronous skip predicate reporting an error\<close>

text \<open>
  Claim C8: when \<open>_skipUserProfile\<close> is a function of more than one parameter and reports
  an error, the loader completes with that error and does nothing else: the fetcher is not
  called.
\<close>

theorem async_skip_error_propagates:
  assumes "skipUserProfile self = SkipFunction len call0 call2" and "1 < len"
    and "call2 tok = \<lparr>calls = [(err, skip)], thrown = None\<rparr>" and "truthy err"
  shows "loadUserProfile rt self tok done = done err Undefined \<and>
         \<not> list_ex is_fetch (own_events (loadUserProfile rt self tok))"
proof -
  have "loadUserProfile rt self tok d = d err Undefined" for d
    using assms by (simp add: loadUserProfile_def Let_def invoke_single)
  then show ?thesis
    by (simp add: own_events_def emit_def)
qed

theorem async_skip_error_propagates_witness:
  "loadUserProfile known
     (strategy_of (SkipFunction 2 (Inr Undefined) (\<lambda>t. once (connection_refused, Undefined)))
        (once (Null, JStr id_response)) never)
     (JStr ''abc'') (\<lambda>err profile. emit [Signal (Fail err)])
     = ([Signal (Fail connection_refused)], None)"
  using async_skip_error_propagates [where
          self = "strategy_of (SkipFunction 2 (Inr Undefined)
             (\<lambda>t. once (connection_refused, Undefined))) (once (Null, JStr id_response)) never"
          and len = 2 and ?call0.0 = "Inr Undefined"
          and ?call2.0 = "\<lambda>t. once (connection_refused, Undefined)" and tok = "JStr ''abc''"
          and err = connection_refused and skip = Undefined and rt = known
          and ?done = "\<lambda>err profile. emit [Signal (Fail err)]"]
  by (simp add: strategy_of_def once_def emit_def connection_refused_def)

subsection \<open>C9: one outcome for one request\<close>




subsection \<open>C10: a request that lacks a container\<close>

text \<open>
  Claim C10: on a request without an error indicator, \<open>authenticate\<close> throws the TypeError
  of the property read, and so signals no outcome, in each of these cases: the body
  container is truthy, its \<open>access_token\<close> is falsy and the query container is missing; the
  body container is truthy, the \<open>access_token\<close> of body and query are falsy and the headers
  container is missing; the body container is falsy and the headers container is missing.
\<close>

theorem missing_container_throws:
  assumes "error_indicator rq = Inr c" and "\<not> truthy c"
  shows "(truthy (body rq) \<and> \<not> truthy (field_of (body rq) ''access_token'') \<and>
            (query rq = Undefined \<or> query rq = Null) \<longrightarrow>
            authenticate rt self rq = throw (cannot_read (query rq) ''access_token'')) \<and>
         (truthy (body rq) \<and> \<not> truthy (field_of (body rq) ''access_token'') \<and>
            query rq \<noteq> Undefined \<and> query rq \<noteq> Null \<and>
            \<not> truthy (field_of (query rq) ''access_token'') \<and>
            (headers rq = Undefined \<or> headers rq = Null) \<longrightarrow>
            authenticate rt self rq = throw (cannot_read (headers rq) ''access_token'')) \<and>
         (\<not> truthy (body rq) \<and> (headers rq = Undefined \<or> headers rq = Null) \<longrightarrow>
            authenticate rt self rq = throw (cannot_read (headers rq) ''access_token''))"
  using assms
  by (auto simp: authenticate_def extract_token_def or_js_def getprop_field_of
      truthy_not_nullish)

theorem missing_container_throws_witness:
  "authenticate known
     (strategy_of (SkipValue Undefined) (once (Null, JStr id_response)) (once (Null, a_user, Null)))
     no_query_request = throw (cannot_read Undefined ''access_token'') \<and>
   authenticate known
     (strategy_of (SkipValue Undefined) (once (Null, JStr id_response)) (once (Null, a_user, Null)))
     no_headers_request = throw (cannot_read Undefined ''access_token'') \<and>
   authenticate known
     (strategy_of (SkipValue Undefined) (once (Null, JStr id_response)) (once (Null, a_user, Null)))
     bare_request = throw (cannot_read Undefined ''access_token'')"
  using missing_container_throws [where rq = no_query_request and c = Undefined and rt = known
          and self = "strategy_of (SkipValue Undefined) (once (Null, JStr id_response))
             (once (Null, a_user, Null))"]
        missing_container_throws [where rq = no_headers_request and c = Undefined and rt = known
          and self = "strategy_of (SkipValue Undefined) (once (Null, JStr id_response))
             (once (Null, a_user, Null))"]
        missing_container_throws [where rq = bare_request and c = Undefined and rt = known
          and self = "strategy_of (SkipValue Undefined) (once (Null, JStr id_response))
             (once (Null, a_user, Null))"]
  by (simp add: no_query_request_def no_headers_request_def bare_request_def
      error_indicator_def and_js_def field_of_def)

end
